theory Spec2Isabelle
  imports Complex_Main "HOL-Library.Sublist" "HOL-Library.AList"
begin

section \<open>Values shared by the components\<close>

text \<open>
  JSON documents as Python holds them after \<^verbatim>\<open>json.loads\<close>. An object keeps its keys in
  insertion order, as a \<^verbatim>\<open>dict\<close> does.
\<close>

datatype json =
    JNull
  | JBool bool
  | JNum real
  | JStr string
  | JArr "json list"
  | JObj "(string \<times> json) list"

text \<open>The exceptions that the modelled code raises or catches.\<close>

datatype py_exception = TypeError | IndexError | KeyError

text \<open>\<^verbatim>\<open>int(x)\<close> on a float: truncation towards zero.\<close>

definition py_int :: "real \<Rightarrow> int" where
  "py_int x = (if 0 \<le> x then \<lfloor>x\<rfloor> else \<lceil>x\<rceil>)"

text \<open>\<^verbatim>\<open>d.get(k, default)\<close> on a dictionary held as a map.\<close>

definition get_default :: "('k \<rightharpoonup> 'v) \<Rightarrow> 'k \<Rightarrow> 'v \<Rightarrow> 'v" where
  "get_default d k dflt = (case d k of None \<Rightarrow> dflt | Some v \<Rightarrow> v)"

section \<open>Config store\<close>

text \<open>
  \<^verbatim>\<open>core/config_loader.py\<close>. The module variables \<^verbatim>\<open>CONFIG\<close>,
  \<^verbatim>\<open>MODEL_ENDPOINT_MAP\<close> and \<^verbatim>\<open>CONFIG_FILE_MTIMES\<close> are the state. Every entry of
  \<^verbatim>\<open>CONFIG_FILE_MTIMES\<close> is initialised to 0 and never removed, so it is a total
  function of the file name.
\<close>

record config_store =
  CONFIG :: "string \<rightharpoonup> json"
  MODEL_ENDPOINT_MAP :: "string \<rightharpoonup> json"
  CONFIG_FILE_MTIMES :: "string \<Rightarrow> real"

text \<open>
  What the block \<^verbatim>\<open>with open(config_file) as f: content = f.read()\<close> followed by the
  parse (\<^verbatim>\<open>_parse_jsonc(content)\<close> for \<^verbatim>\<open>config.jsonc\<close>, \<^verbatim>\<open>json.loads(content)\<close>
  or \<^verbatim>\<open>{}\<close> for a blank \<^verbatim>\<open>model_endpoint_map.json\<close>) yields: the file has vanished,
  its text is not valid JSON, or a dictionary. The file system and the JSON parser are
  the environment of the loader; the top level of a parsed document is taken to be an
  object.
\<close>

datatype parse_outcome =
    FileNotFoundError
  | JSONDecodeError
  | Parsed "string \<rightharpoonup> json"

text \<open>
  \<^verbatim>\<open>load_config(force_reload)\<close>. \<open>getmtime\<close> is the result of
  \<^verbatim>\<open>os.path.getmtime('config.jsonc')\<close>, \<open>None\<close> when it raises
  \<^verbatim>\<open>FileNotFoundError\<close>. Both \<^verbatim>\<open>except\<close> branches end in \<^verbatim>\<open>CONFIG.clear()\<close>.
\<close>

definition load_config ::
  "bool \<Rightarrow> real option \<Rightarrow> parse_outcome \<Rightarrow> config_store \<Rightarrow> config_store" where
  "load_config force_reload getmtime outcome st =
     (case getmtime of
        None \<Rightarrow> st\<lparr>CONFIG := Map.empty\<rparr>
      | Some current_mtime \<Rightarrow>
          if \<not> force_reload \<and> current_mtime = CONFIG_FILE_MTIMES st ''config.jsonc''
          then st
          else (case outcome of
                  Parsed new_config \<Rightarrow>
                    st\<lparr>CONFIG := Map.empty ++ new_config,
                       CONFIG_FILE_MTIMES :=
                         (CONFIG_FILE_MTIMES st)(''config.jsonc'' := current_mtime)\<rparr>
                | FileNotFoundError \<Rightarrow> st\<lparr>CONFIG := Map.empty\<rparr>
                | JSONDecodeError \<Rightarrow> st\<lparr>CONFIG := Map.empty\<rparr>))"

text \<open>\<^verbatim>\<open>load_model_endpoint_map(force_reload)\<close>, of the same shape.\<close>

definition load_model_endpoint_map ::
  "bool \<Rightarrow> real option \<Rightarrow> parse_outcome \<Rightarrow> config_store \<Rightarrow> config_store" where
  "load_model_endpoint_map force_reload getmtime outcome st =
     (case getmtime of
        None \<Rightarrow> st\<lparr>MODEL_ENDPOINT_MAP := Map.empty\<rparr>
      | Some current_mtime \<Rightarrow>
          if \<not> force_reload
             \<and> current_mtime = CONFIG_FILE_MTIMES st ''model_endpoint_map.json''
          then st
          else (case outcome of
                  Parsed new_map \<Rightarrow>
                    st\<lparr>MODEL_ENDPOINT_MAP := Map.empty ++ new_map,
                       CONFIG_FILE_MTIMES :=
                         (CONFIG_FILE_MTIMES st)(''model_endpoint_map.json'' := current_mtime)\<rparr>
                | FileNotFoundError \<Rightarrow> st\<lparr>MODEL_ENDPOINT_MAP := Map.empty\<rparr>
                | JSONDecodeError \<Rightarrow> st\<lparr>MODEL_ENDPOINT_MAP := Map.empty\<rparr>))"



section \<open>Human-verification cool-down\<close>

text \<open>
  The two module variables of \<^verbatim>\<open>core/global_state.py\<close>,
  \<^verbatim>\<open>IS_REFRESHING_FOR_VERIFICATION\<close> and \<^verbatim>\<open>VERIFICATION_COOLDOWN_UNTIL\<close>. Every
  function that uses them (\<^verbatim>\<open>chat_completions\<close>, \<^verbatim>\<open>handle_lmarena_request\<close>,
  \<^verbatim>\<open>_process_lmarena_stream\<close>, \<^verbatim>\<open>websocket_endpoint\<close>) receives their values as
  arguments; a \<^verbatim>\<open>bool\<close> and a \<^verbatim>\<open>float\<close> are passed by value.
\<close>

record verification_state =
  IS_REFRESHING_FOR_VERIFICATION :: bool
  VERIFICATION_COOLDOWN_UNTIL :: "real option"

definition idle_verification :: verification_state where
  "idle_verification =
     \<lparr>IS_REFRESHING_FOR_VERIFICATION = False, VERIFICATION_COOLDOWN_UNTIL = None\<rparr>"

text \<open>The three texts that \<^verbatim>\<open>handle_cloudflare_verification\<close> returns.\<close>

datatype verification_message =
    Refresh_sent_cooling_25s
  | Cooling_down int
  | Waiting_for_verification

text \<open>
  \<^verbatim>\<open>handle_cloudflare_verification\<close>, local to \<^verbatim>\<open>_process_lmarena_stream\<close>
  (\<^verbatim>\<open>services/stream_processor.py\<close>). Its
  \<^verbatim>\<open>nonlocal IS_REFRESHING_FOR_VERIFICATION, VERIFICATION_COOLDOWN_UNTIL\<close> binds the two
  parameters of the enclosing \<^verbatim>\<open>_process_lmarena_stream\<close> call: \<open>loc\<close> is that call's
  pair of local variables, and the result holds their new values. The second component
  of the result tells whether \<^verbatim>\<open>{"command": "refresh"}\<close> is sent to the first tab.
  \<^verbatim>\<open>if VERIFICATION_COOLDOWN_UNTIL:\<close> is false for \<^verbatim>\<open>None\<close> and for \<^verbatim>\<open>0.0\<close>.
\<close>

definition handle_cloudflare_verification ::
  "real \<Rightarrow> bool \<Rightarrow> verification_state \<Rightarrow> verification_message \<times> bool \<times> verification_state" where
  "handle_cloudflare_verification now has_connections loc =
     (if \<not> IS_REFRESHING_FOR_VERIFICATION loc
      then (Refresh_sent_cooling_25s, has_connections,
            loc\<lparr>IS_REFRESHING_FOR_VERIFICATION := True,
                VERIFICATION_COOLDOWN_UNTIL := Some (now + 25)\<rparr>)
      else (case VERIFICATION_COOLDOWN_UNTIL loc of
              None \<Rightarrow> (Waiting_for_verification, False, loc)
            | Some until \<Rightarrow>
                if until = 0 then (Waiting_for_verification, False, loc)
                else let remaining = max 0 (py_int (until - now))
                     in if remaining > 0 then (Cooling_down remaining, False, loc)
                        else (Waiting_for_verification, False, loc)))"

text \<open>
  \<^verbatim>\<open>reset_verification_status\<close>, run 25 seconds after the first detection; it rebinds
  the same two local variables.
\<close>

definition reset_verification_status :: "verification_state \<Rightarrow> verification_state" where
  "reset_verification_status loc =
     loc\<lparr>IS_REFRESHING_FOR_VERIFICATION := False, VERIFICATION_COOLDOWN_UNTIL := None\<rparr>"

text \<open>
  The head of \<^verbatim>\<open>chat_completions\<close> (\<^verbatim>\<open>routes/api_routes.py\<close>): the cool-down check
  on the value it was called with. A rejection is
  \<^verbatim>\<open>HTTPException(status_code=503)\<close> whose detail carries
  \<^verbatim>\<open>adjusted_remaining = max(0, int(remaining - 3))\<close>.
\<close>

datatype admission =
    HTTP_503_cooling_down int
  | Admitted

definition cooldown_gate :: "real option \<Rightarrow> real \<Rightarrow> admission" where
  "cooldown_gate cooldown_until now =
     (case cooldown_until of
        None \<Rightarrow> Admitted
      | Some until \<Rightarrow>
          let remaining = until - now
          in if remaining > 0 then HTTP_503_cooling_down (max 0 (py_int (remaining - 3)))
             else Admitted)"

text \<open>
  One tab-path request as the process serves it. The application entry point that calls
  \<^verbatim>\<open>chat_completions\<close> is not among the sources; it is taken to pass the current values
  of the two module variables, which is the only process-wide verification state there
  is. \<open>challenge_at\<close> is the time at which this request's stream meets a challenge
  page, if it does. The values travel from \<^verbatim>\<open>chat_completions\<close> through
  \<^verbatim>\<open>handle_lmarena_request\<close> into the parameters of \<^verbatim>\<open>_process_lmarena_stream\<close>,
  where \<^verbatim>\<open>handle_cloudflare_verification\<close> rebinds them; no statement of the sources
  assigns the module variables, so the process-wide state after the request is the
  state before it.
\<close>

datatype request_result =
    Rejected admission
  | Streamed "verification_message option"

definition serve_tab_request ::
  "verification_state \<Rightarrow> real \<Rightarrow> real option \<Rightarrow> request_result \<times> verification_state" where
  "serve_tab_request gs now challenge_at =
     (case cooldown_gate (VERIFICATION_COOLDOWN_UNTIL gs) now of
        HTTP_503_cooling_down r \<Rightarrow> (Rejected (HTTP_503_cooling_down r), gs)
      | Admitted \<Rightarrow>
          (case challenge_at of
             None \<Rightarrow> (Streamed None, gs)
           | Some t \<Rightarrow>
               let (msg, refresh, loc) = handle_cloudflare_verification t True gs
               in (Streamed (Some msg), gs)))"

text \<open>Requests one after the other: arrival time and challenge time of each.\<close>

fun serve_tab_requests ::
  "verification_state \<Rightarrow> (real \<times> real option) list \<Rightarrow> request_result list" where
  "serve_tab_requests gs [] = []"
| "serve_tab_requests gs ((now, challenge_at) # rest) =
     (let (res, gs') = serve_tab_request gs now challenge_at
      in res # serve_tab_requests gs' rest)"

section \<open>Tab registry, response channels and reassignment\<close>

text \<open>
  The shared dictionaries of \<^verbatim>\<open>core/global_state.py\<close> that the browser-tab path works
  on. A dictionary whose iteration order the code relies on is an association list in
  insertion order. A WebSocket object and an asyncio task are known by a number. Each
  request id is minted once and gets one \<^verbatim>\<open>asyncio.Queue\<close>: \<open>queue\<close> holds the frames
  put into the queue created for a request id, and \<open>response_channels\<close> the ids that are
  keys of the dictionary at the moment (the stream parser keeps its own reference to the
  queue, so removing the key does not empty the queue). \<open>browser_connections_lock\<close> is
  the task that holds the \<^verbatim>\<open>asyncio.Lock\<close>, if any. \<open>ws_sent\<close> records every
  \<^verbatim>\<open>send_text\<close>.
\<close>

type_synonym tab = string
type_synonym request = string
type_synonym ws = nat
type_synonym task = nat

datatype error_reason =
    Transfer_attempts_exhausted real
  | Reassignment_failed py_exception
  | Browser_disconnected_during_operation

datatype chan_item =
    Data json
  | Error_frame error_reason

abbreviation DONE :: chan_item where
  "DONE \<equiv> Data (JStr ''[DONE]'')"

text \<open>
  One entry of \<^verbatim>\<open>request_metadata\<close>, with the keys that
  \<^verbatim>\<open>handle_lmarena_request\<close> stores and \<^verbatim>\<open>reassign_pending_requests\<close> reads. A key
  read with \<^verbatim>\<open>.get\<close> is an option: \<open>None\<close> when the key is absent or holds
  \<^verbatim>\<open>None\<close>. \<^verbatim>\<open>message_id\<close> is never stored, so reading it gives \<^verbatim>\<open>None\<close>.
\<close>

record request_meta =
  openai_request :: json
  session_id :: "string option"
  message_id :: "string option"
  mode_override :: "string option"
  battle_target_override :: "string option"
  tab_id :: "tab option"
  original_tab_id :: "tab option"
  transfer_count :: int
  transfer_allowed :: "bool option"

record registry =
  browser_connections :: "(tab \<times> ws) list"
  browser_connections_lock :: "task option"
  browser_ws :: "ws option"
  tab_connection_times :: "tab \<rightharpoonup> real"
  tab_request_counts :: "tab \<rightharpoonup> int"
  response_channels :: "request list"
  queue :: "request \<Rightarrow> chan_item list"
  request_metadata :: "(request \<times> request_meta) list"
  ws_sent :: "(ws \<times> json) list"

text \<open>
  A coroutine either runs to its end or is left suspended in
  \<^verbatim>\<open>browser_connections_lock.acquire()\<close>, with the registry as it is at that moment.
\<close>

datatype 'a outcome =
    Returned 'a
  | Awaits_lock 'a

text \<open>
  \<^verbatim>\<open>async with browser_connections_lock\<close>: an \<^verbatim>\<open>asyncio.Lock\<close> is not reentrant and
  has no owner check, so acquiring waits whenever the lock is held, by whichever task.
\<close>

definition acquire :: "task \<Rightarrow> registry \<Rightarrow> registry outcome" where
  "acquire self st =
     (case browser_connections_lock st of
        None \<Rightarrow> Returned (st\<lparr>browser_connections_lock := Some self\<rparr>)
      | Some holder \<Rightarrow> Awaits_lock st)"

definition release :: "registry \<Rightarrow> registry" where
  "release st = st\<lparr>browser_connections_lock := None\<rparr>"

text \<open>\<^verbatim>\<open>await response_channels[request_id].put(x)\<close>.\<close>

definition put :: "request \<Rightarrow> chan_item \<Rightarrow> registry \<Rightarrow> registry" where
  "put rid x st = st\<lparr>queue := (queue st)(rid := queue st rid @ [x])\<rparr>"

text \<open>Python's truth value of a JSON value, and two ways of reading \<^verbatim>\<open>CONFIG\<close>.\<close>

fun truthy :: "json \<Rightarrow> bool" where
  "truthy JNull = False"
| "truthy (JBool b) = b"
| "truthy (JNum x) = (x \<noteq> 0)"
| "truthy (JStr s) = (s \<noteq> [])"
| "truthy (JArr xs) = (xs \<noteq> [])"
| "truthy (JObj kvs) = (kvs \<noteq> [])"

definition config_flag :: "(string \<rightharpoonup> json) \<Rightarrow> string \<Rightarrow> bool \<Rightarrow> bool" where
  "config_flag cfg k dflt = (case cfg k of None \<Rightarrow> dflt | Some v \<Rightarrow> truthy v)"

definition config_number :: "(string \<rightharpoonup> json) \<Rightarrow> string \<Rightarrow> real \<Rightarrow> real" where
  "config_number cfg k dflt = (case cfg k of Some (JNum x) \<Rightarrow> x | _ \<Rightarrow> dflt)"

subsection \<open>Calling the translator\<close>

text \<open>
  How Python binds the arguments of a call to the parameters of a \<^verbatim>\<open>def\<close>:
  positional arguments fill the parameters from the left; a keyword argument that names
  no parameter, or one that a positional argument has filled already, raises
  \<^verbatim>\<open>TypeError\<close>, before the body runs; so does a required parameter left unbound.
  \<open>required\<close> is the number of parameters without a default.
\<close>

definition bind_arguments ::
  "string list \<Rightarrow> nat \<Rightarrow> 'a list \<Rightarrow> (string \<times> 'a) list \<Rightarrow> py_exception + (string \<rightharpoonup> 'a)" where
  "bind_arguments params required positional keywords =
     (let filled = take (length positional) params;
          names = map fst keywords
      in if length params < length positional then Inl TypeError
         else if filter (\<lambda>k. k \<notin> set params) names \<noteq> [] then Inl TypeError
         else if filter (\<lambda>k. k \<in> set filled) names \<noteq> [] then Inl TypeError
         else if filter (\<lambda>p. p \<notin> set filled \<and> p \<notin> set names) (take required params) \<noteq> []
              then Inl TypeError
         else Inr (map_of (zip params positional @ keywords)))"

text \<open>
  \<^verbatim>\<open>services/message_converter.py\<close>:
  \<^verbatim>\<open>async def convert_openai_to_lmarena_payload(openai_data, session_id,
  mode_override=None, battle_target_override=None)\<close>.
\<close>

definition convert_params :: "string list" where
  "convert_params =
     [''openai_data'', ''session_id'', ''mode_override'', ''battle_target_override'']"

datatype arg =
    Arg_request json
  | Arg_str "string option"

text \<open>
  A call of the translator. \<open>body\<close> is what the translator computes from its bound
  parameters (section 4.C of the specification).
\<close>

definition call_convert ::
  "((string \<rightharpoonup> arg) \<Rightarrow> json) \<Rightarrow> arg list \<Rightarrow> (string \<times> arg) list \<Rightarrow> py_exception + json" where
  "call_convert body positional keywords =
     (case bind_arguments convert_params 2 positional keywords of
        Inl e \<Rightarrow> Inl e
      | Inr bound \<Rightarrow> Inr (body bound))"

subsection \<open>\<^verbatim>\<open>reassign_pending_requests\<close>\<close>

text \<open>
  \<^verbatim>\<open>core/load_balancer.py\<close>. First loop: the requests of the disconnected tab; one that
  has used up its transfers gets an error and \<^verbatim>\<open>"[DONE]"\<close> if its channel is still
  open, the others are collected.
\<close>

fun requests_to_reassign ::
  "tab \<Rightarrow> real \<Rightarrow> (request \<times> request_meta) list \<Rightarrow> registry
     \<Rightarrow> (request \<times> request_meta) list \<times> registry" where
  "requests_to_reassign disconnected max_transfers [] st = ([], st)"
| "requests_to_reassign disconnected max_transfers ((rid, metadata) # rest) st =
     (if tab_id metadata = Some disconnected then
        if max_transfers \<le> real_of_int (transfer_count metadata) then
          requests_to_reassign disconnected max_transfers rest
            (if rid \<in> set (response_channels st)
             then put rid DONE
                    (put rid (Error_frame (Transfer_attempts_exhausted max_transfers)) st)
             else st)
        else
          (let (found, st') = requests_to_reassign disconnected max_transfers rest st
           in ((rid, metadata) # found, st'))
      else requests_to_reassign disconnected max_transfers rest st)"

text \<open>
  The inner loop over \<^verbatim>\<open>active_tabs\<close>: \<^verbatim>\<open>min_load\<close> starts at infinity (\<open>None\<close>) and
  a tab replaces the best one only with a strictly smaller load.
\<close>

definition least_loaded_tab :: "tab list \<Rightarrow> (tab \<rightharpoonup> int) \<Rightarrow> tab option" where
  "least_loaded_tab active_tabs counts =
     fst (foldl
            (\<lambda>(best_tab_id, min_load) t.
               let current_load = get_default counts t 0
               in if (case min_load of None \<Rightarrow> True | Some m \<Rightarrow> current_load < m)
                  then (Some t, Some current_load)
                  else (best_tab_id, min_load))
            (None, None) active_tabs)"

text \<open>The \<^verbatim>\<open>except Exception\<close> branch of the second loop.\<close>

definition reassignment_failed :: "request \<Rightarrow> py_exception \<Rightarrow> registry \<Rightarrow> registry" where
  "reassignment_failed rid e st =
     (if rid \<in> set (response_channels st)
      then put rid DONE (put rid (Error_frame (Reassignment_failed e)) st)
      else st)"

text \<open>
  The body of the second loop for one request. The metadata is updated before the
  translator is called with three positional arguments
  (\<^verbatim>\<open>openai_request, session_id, message_id\<close>) and the keywords
  \<^verbatim>\<open>mode_override\<close> and \<^verbatim>\<open>battle_target_override\<close>. The entry always has the key
  \<^verbatim>\<open>original_tab_id\<close>, so \<^verbatim>\<open>.get("original_tab_id", disconnected_tab_id)\<close> is the
  stored value. \<^verbatim>\<open>send_text\<close> is taken to succeed.
\<close>

definition transfer_message :: "request \<Rightarrow> json \<Rightarrow> tab option \<Rightarrow> int \<Rightarrow> json" where
  "transfer_message rid lmarena_payload original count =
     JObj [(''request_id'', JStr rid),
           (''payload'', lmarena_payload),
           (''is_transfer'', JBool True),
           (''original_tab_id'', (case original of None \<Rightarrow> JNull | Some t \<Rightarrow> JStr t)),
           (''transfer_count'', JNum (real_of_int count))]"

definition reassign_request ::
  "((string \<rightharpoonup> arg) \<Rightarrow> json) \<Rightarrow> tab list \<Rightarrow> registry \<Rightarrow> request \<times> request_meta \<Rightarrow> registry" where
  "reassign_request convert_body active_tabs st entry =
     (let rid = fst entry; metadata = snd entry in
      case least_loaded_tab active_tabs (tab_request_counts st) of
        None \<Rightarrow> st
      | Some best_tab_id \<Rightarrow>
          if best_tab_id = [] then st
          else
            (case map_of (browser_connections st) best_tab_id of
               None \<Rightarrow> reassignment_failed rid KeyError st
             | Some target_ws \<Rightarrow>
                 let original = original_tab_id metadata;
                     count = transfer_count metadata;
                     updated = metadata\<lparr>tab_id := Some best_tab_id,
                                        original_tab_id := original,
                                        transfer_count := count + 1,
                                        transfer_allowed := Some True\<rparr>;
                     st1 = st\<lparr>request_metadata :=
                                 AList.update rid updated (request_metadata st)\<rparr>
                 in case call_convert convert_body
                           [Arg_request (openai_request metadata),
                            Arg_str (session_id metadata),
                            Arg_str (message_id metadata)]
                           [(''mode_override'', Arg_str (mode_override metadata)),
                            (''battle_target_override'',
                               Arg_str (battle_target_override metadata))] of
                      Inl e \<Rightarrow> reassignment_failed rid e st1
                    | Inr lmarena_payload \<Rightarrow>
                        st1\<lparr>ws_sent := ws_sent st1 @
                                [(target_ws,
                                  transfer_message rid lmarena_payload original (count + 1))],
                            tab_request_counts :=
                              (tab_request_counts st1)
                                (best_tab_id \<mapsto>
                                   get_default (tab_request_counts st1) best_tab_id 0 + 1)\<rparr>))"

text \<open>The whole function; everything happens inside \<^verbatim>\<open>async with browser_connections_lock\<close>.\<close>

definition reassign_pending_requests ::
  "task \<Rightarrow> ((string \<rightharpoonup> arg) \<Rightarrow> json) \<Rightarrow> (string \<rightharpoonup> json) \<Rightarrow> tab \<Rightarrow> registry
     \<Rightarrow> registry outcome" where
  "reassign_pending_requests self convert_body cfg disconnected st =
     (case acquire self st of
        Awaits_lock s \<Rightarrow> Awaits_lock s
      | Returned st1 \<Rightarrow>
          let active_tabs = map fst (browser_connections st1)
          in if active_tabs = [] then Returned (release st1)
             else
               let max_transfers = config_number cfg ''max_request_transfers'' 3;
                   (found, st2) =
                     requests_to_reassign disconnected max_transfers (request_metadata st1) st1
               in if found = [] then Returned (release st2)
                  else Returned (release
                         (foldl (reassign_request convert_body active_tabs) st2 found)))"

subsection \<open>\<^verbatim>\<open>websocket_endpoint\<close>: routing of inbound frames\<close>

text \<open>
  \<^verbatim>\<open>routes/websocket_routes.py\<close>, the body of the receive loop for one message
  \<^verbatim>\<open>{request_id, data}\<close> read from the WebSocket of tab \<open>sender\<close>.
\<close>

datatype routing =
    Enqueued
  | Rejected_cross_tab
  | Unknown_or_closed_request
  | Invalid_message



text \<open>
  The first message of a client that sent no \<^verbatim>\<open>tab_id\<close> (an old user script) is
  handled before the loop, by a shorter branch that does not look at the metadata.
\<close>

definition route_first_legacy_frame ::
  "request option \<Rightarrow> json option \<Rightarrow> registry \<Rightarrow> routing \<times> registry" where
  "route_first_legacy_frame request_id data st =
     (case request_id of
        None \<Rightarrow> (Invalid_message, st)
      | Some rid \<Rightarrow>
          (case data of
             None \<Rightarrow> (Invalid_message, st)
           | Some d \<Rightarrow>
               if rid = [] then (Invalid_message, st)
               else if rid \<in> set (response_channels st) then (Enqueued, put rid (Data d) st)
               else (Unknown_or_closed_request, st)))"

subsection \<open>\<^verbatim>\<open>websocket_endpoint\<close>: the clean-up when a tab disconnects\<close>

text \<open>
  The \<^verbatim>\<open>finally\<close> block. \<open>reassign_pending_requests_func\<close> is the parameter of that
  name; an exception it raises is caught and logged, which leaves the registry as the
  function left it, so only its two other outcomes are distinguished. The counter is
  dropped under \<^verbatim>\<open>tab_request_counts_lock\<close>, which nothing else holds across a
  suspension. The broadcasts to the monitoring clients do not touch the registry.
\<close>

definition close_all_channels :: "registry \<Rightarrow> registry" where
  "close_all_channels st =
     (foldl (\<lambda>s rid. put rid (Error_frame Browser_disconnected_during_operation) s)
            st (response_channels st))
       \<lparr>response_channels := []\<rparr>"

definition websocket_disconnect ::
  "task \<Rightarrow> (tab \<Rightarrow> registry \<Rightarrow> registry outcome) \<Rightarrow> (string \<rightharpoonup> json) \<Rightarrow> tab \<Rightarrow> registry
     \<Rightarrow> registry outcome" where
  "websocket_disconnect self reassign_pending_requests_func cfg t st =
     (let st1 = st\<lparr>tab_request_counts := (tab_request_counts st)(t := None)\<rparr>
      in case acquire self st1 of
           Awaits_lock s \<Rightarrow> Awaits_lock s
         | Returned st2 \<Rightarrow>
             let remaining = AList.delete t (browser_connections st2);
                 st3 = st2\<lparr>browser_connections := remaining,
                           tab_connection_times := (tab_connection_times st2)(t := None),
                           browser_ws := (case remaining of [] \<Rightarrow> None
                                          | c # _ \<Rightarrow> Some (snd c))\<rparr>
             in case (if remaining \<noteq> [] then reassign_pending_requests_func t st3
                      else Returned st3) of
                  Awaits_lock s \<Rightarrow> Awaits_lock s
                | Returned st4 \<Rightarrow>
                    let st5 = release st4
                    in if config_flag cfg ''enable_auto_retry'' False then Returned st5
                       else Returned (close_all_channels st5))"

text \<open>
  The function that the application has for that parameter:
  \<^verbatim>\<open>core/tab_manager.py\<close>, \<^verbatim>\<open>reassign_pending_requests\<close>, which passes
  \<^verbatim>\<open>gs.browser_connections_lock\<close>, the one lock of the process and the lock that
  \<^verbatim>\<open>websocket_endpoint\<close> holds, and the translator. It is awaited, so it runs in the
  task of the disconnecting WebSocket.
\<close>

definition tab_disconnects ::
  "task \<Rightarrow> ((string \<rightharpoonup> arg) \<Rightarrow> json) \<Rightarrow> (string \<rightharpoonup> json) \<Rightarrow> tab \<Rightarrow> registry
     \<Rightarrow> registry outcome" where
  "tab_disconnects self convert_body cfg t st =
     websocket_disconnect self (reassign_pending_requests self convert_body cfg) cfg t st"

subsection \<open>Example registries\<close>

definition pending_on :: "tab \<Rightarrow> int \<Rightarrow> request_meta" where
  "pending_on t n =
     \<lparr>openai_request = JObj [(''model'', JStr ''m1''), (''messages'', JArr [])],
      session_id = Some ''s-1'', message_id = None, mode_override = None,
      battle_target_override = None, tab_id = Some t, original_tab_id = Some t,
      transfer_count = n, transfer_allowed = Some True\<rparr>"

text \<open>Tabs T1 and T2 connected; request R1 in flight on T1, request R2 on T2.\<close>

definition two_tabs :: registry where
  "two_tabs =
     \<lparr>browser_connections = [(''T1'', 1), (''T2'', 2)],
      browser_connections_lock = None,
      browser_ws = Some 1,
      tab_connection_times = [''T1'' \<mapsto> 10, ''T2'' \<mapsto> 20],
      tab_request_counts = [''T1'' \<mapsto> 1, ''T2'' \<mapsto> 1],
      response_channels = [''R1'', ''R2''],
      queue = (\<lambda>_. []),
      request_metadata = [(''R1'', pending_on ''T1'' 0), (''R2'', pending_on ''T2'' 0)],
      ws_sent = []\<rparr>"

text \<open>
  The registry that \<^verbatim>\<open>reassign_pending_requests\<close> meets after T1 has gone, had the
  lock been free: T2 alone connected, R1 still recorded on T1.
\<close>

definition after_T1_left :: registry where
  "after_T1_left =
     two_tabs\<lparr>browser_connections := [(''T2'', 2)],
              browser_ws := Some 2,
              tab_connection_times := [''T2'' \<mapsto> 20],
              tab_request_counts := [''T2'' \<mapsto> 1]\<rparr>"


text \<open>R2 recorded on T2 with cross-tab delivery switched off.\<close>

definition strict_R2 :: registry where
  "strict_R2 =
     two_tabs\<lparr>request_metadata :=
                [(''R1'', pending_on ''T1'' 0),
                 (''R2'', (pending_on ''T2'' 0)\<lparr>transfer_allowed := Some False\<rparr>)]\<rparr>"

section \<open>Round-robin over the bindings of a model\<close>

text \<open>
  \<^verbatim>\<open>MODEL_ROUND_ROBIN_INDEX\<close> maps a model name to its cursor; both functions below run
  their step under \<^verbatim>\<open>MODEL_ROUND_ROBIN_LOCK\<close>. An entry of \<^verbatim>\<open>MODEL_ENDPOINT_MAP\<close> is
  a JSON object (one binding) or a JSON array of bindings.
\<close>

type_synonym cursors = "string \<rightharpoonup> nat"

text \<open>
  \<^verbatim>\<open>chat_completions\<close> (\<^verbatim>\<open>routes/api_routes.py\<close>), "multi-endpoint" step: for a
  non-empty list the entry at the cursor becomes \<^verbatim>\<open>endpoint_config\<close> and the cursor
  moves on by one, modulo the length of the list. A cursor beyond the end of the list
  (the list has shrunk in a reload) makes the indexing raise \<^verbatim>\<open>IndexError\<close>.
\<close>

definition chat_completions_select ::
  "(string \<rightharpoonup> json) \<Rightarrow> string \<Rightarrow> cursors \<Rightarrow> py_exception + (json option \<times> cursors)" where
  "chat_completions_select endpoint_map model_name idx =
     (case (if model_name = [] then None else endpoint_map model_name) of
        Some (JArr (e # es)) \<Rightarrow>
          let current_index = get_default idx model_name 0
          in if current_index < length (e # es)
             then Inr (Some ((e # es) ! current_index),
                       idx(model_name \<mapsto> (current_index + 1) mod length (e # es)))
             else Inl IndexError
      | other \<Rightarrow> Inr (other, idx))"

text \<open>
  \<^verbatim>\<open>is_direct_api_mode\<close>: the selected configuration is an object whose \<^verbatim>\<open>api_type\<close>
  is \<^verbatim>\<open>direct_api\<close> or \<^verbatim>\<open>gemini_native\<close>.
\<close>

definition is_direct_api_mode :: "json option \<Rightarrow> bool" where
  "is_direct_api_mode endpoint_config =
     (case endpoint_config of
        Some (JObj kvs) \<Rightarrow>
          (case map_of kvs ''api_type'' of
             Some (JStr t) \<Rightarrow> t \<in> set [''direct_api'', ''gemini_native'']
           | _ \<Rightarrow> False)
      | _ \<Rightarrow> False)"

text \<open>
  \<^verbatim>\<open>handle_lmarena_request\<close>, selection of the mapping: for a non-empty list the entry
  at the cursor, the cursor created at 0 if the model has none; the cursor is read and
  not written.
\<close>

definition handle_lmarena_select ::
  "(string \<rightharpoonup> json) \<Rightarrow> string \<Rightarrow> cursors \<Rightarrow> py_exception + (json option \<times> cursors)" where
  "handle_lmarena_select endpoint_map model_name idx =
     (case (if model_name = [] then None else endpoint_map model_name) of
        Some (JArr (e # es)) \<Rightarrow>
          let current_index = get_default idx model_name 0;
              idx' = (case idx model_name of None \<Rightarrow> idx(model_name \<mapsto> 0) | Some _ \<Rightarrow> idx)
          in if current_index < length (e # es)
             then Inr (Some ((e # es) ! current_index), idx')
             else Inl IndexError
      | Some (JObj kvs) \<Rightarrow> Inr (Some (JObj kvs), idx)
      | _ \<Rightarrow> Inr (None, idx))"

text \<open>
  The path of one admitted request (API key accepted, a tab connected) through
  \<^verbatim>\<open>chat_completions\<close>: a Direct-API configuration is served with the configuration
  that \<^verbatim>\<open>chat_completions\<close> selected, any other request goes on to
  \<^verbatim>\<open>handle_lmarena_request\<close>, which selects again.
\<close>

datatype served =
    Direct_api "json option"
  | Browser_tab "json option"

definition admit_request ::
  "(string \<rightharpoonup> json) \<Rightarrow> string \<Rightarrow> cursors \<Rightarrow> py_exception + (served \<times> cursors)" where
  "admit_request endpoint_map model_name idx =
     (case chat_completions_select endpoint_map model_name idx of
        Inl e \<Rightarrow> Inl e
      | Inr (endpoint_config, idx1) \<Rightarrow>
          if is_direct_api_mode endpoint_config then Inr (Direct_api endpoint_config, idx1)
          else (case handle_lmarena_select endpoint_map model_name idx1 of
                  Inl e \<Rightarrow> Inl e
                | Inr (selected_mapping, idx2) \<Rightarrow> Inr (Browser_tab selected_mapping, idx2)))"

text \<open>\<open>n\<close> requests for the same model, one after the other.\<close>

fun admit_requests ::
  "(string \<rightharpoonup> json) \<Rightarrow> string \<Rightarrow> cursors \<Rightarrow> nat \<Rightarrow> py_exception + served list" where
  "admit_requests endpoint_map model_name idx 0 = Inr []"
| "admit_requests endpoint_map model_name idx (Suc n) =
     (case admit_request endpoint_map model_name idx of
        Inl e \<Rightarrow> Inl e
      | Inr (s, idx') \<Rightarrow>
          (case admit_requests endpoint_map model_name idx' n of
             Inl e \<Rightarrow> Inl e
           | Inr rest \<Rightarrow> Inr (s # rest)))"

text \<open>The scenario of the specification: model \<^verbatim>\<open>m2\<close> with three session bindings.\<close>

definition session_binding :: "string \<Rightarrow> json" where
  "session_binding sid = JObj [(''session_id'', JStr sid), (''type'', JStr ''text'')]"

definition m2_map :: "string \<rightharpoonup> json" where
  "m2_map = [''m2'' \<mapsto> JArr [session_binding ''B1'', session_binding ''B2'',
                              session_binding ''B3'']]"

section \<open>Direct-upstream passthrough: the thinking separator\<close>




text \<open>Python's \<^verbatim>\<open>str.find\<close>: index of the first occurrence, \<open>None\<close> for \<^verbatim>\<open>-1\<close>.\<close>

fun str_find :: "'a list \<Rightarrow> 'a list \<Rightarrow> nat option" where
  "str_find sep [] = (if sep = [] then Some 0 else None)"
| "str_find sep (x # xs) =
     (if prefix sep (x # xs) then Some 0 else map_option Suc (str_find sep xs))"

text \<open>\<^verbatim>\<open>sep in s\<close>.\<close>

definition str_contains :: "'a list \<Rightarrow> 'a list \<Rightarrow> bool" where
  "str_contains sep s = (str_find sep s \<noteq> None)"

text \<open>
  \<^verbatim>\<open>parts = s.split(sep, 1)\<close> followed by
  \<^verbatim>\<open>parts[0]\<close> and \<^verbatim>\<open>parts[1] if len(parts) > 1 else ""\<close>.
\<close>

definition split_once :: "'a list \<Rightarrow> 'a list \<Rightarrow> 'a list \<times> 'a list" where
  "split_once sep s =
     (case str_find sep s of
        None \<Rightarrow> (s, [])
      | Some i \<Rightarrow> (take i s, drop (i + length sep) s))"










section \<open>Temperature cap and the envelope sent to the tab\<close>

text \<open>
  \<^verbatim>\<open>handle_lmarena_request\<close> (\<^verbatim>\<open>routes/api_routes.py\<close>) from the selected mapping to
  the message for the browser. The request body is a dictionary, held in insertion
  order.
\<close>

type_synonym pydict = "(string \<times> json) list"

text \<open>\<^verbatim>\<open>d.get(k)\<close> and \<^verbatim>\<open>d.get(k, default)\<close> on a JSON value that is a dictionary.\<close>

definition json_get :: "json \<Rightarrow> string \<Rightarrow> json option" where
  "json_get j k = (case j of JObj kvs \<Rightarrow> map_of kvs k | _ \<Rightarrow> None)"

definition json_get_default :: "json \<Rightarrow> string \<Rightarrow> json \<Rightarrow> json" where
  "json_get_default j k dflt = (case json_get j k of None \<Rightarrow> dflt | Some v \<Rightarrow> v)"

text \<open>A value read with \<^verbatim>\<open>.get\<close> and used as a string; \<^verbatim>\<open>None\<close> and \<^verbatim>\<open>""\<close> are false.\<close>

definition as_string :: "json option \<Rightarrow> string option" where
  "as_string v = (case v of Some (JStr s) \<Rightarrow> (if s = [] then None else Some s) | _ \<Rightarrow> None)"

text \<open>
  \<^verbatim>\<open>a > b\<close> for the values of \<^verbatim>\<open>temperature\<close> and \<^verbatim>\<open>max_temperature\<close>: numbers
  compare by value (a \<^verbatim>\<open>bool\<close> is the integer 0 or 1); a comparison with
  \<^verbatim>\<open>None\<close>, or between a number and a string, a list or a dictionary, raises
  \<^verbatim>\<open>TypeError\<close>. The comparison of two strings or two lists is not modelled.
\<close>

definition as_number :: "json \<Rightarrow> real option" where
  "as_number v = (case v of JNum x \<Rightarrow> Some x | JBool b \<Rightarrow> Some (if b then 1 else 0) | _ \<Rightarrow> None)"

definition py_greater :: "json \<Rightarrow> json \<Rightarrow> py_exception + bool" where
  "py_greater a b =
     (case as_number a of
        None \<Rightarrow> Inl TypeError
      | Some x \<Rightarrow> (case as_number b of None \<Rightarrow> Inl TypeError | Some y \<Rightarrow> Inr (y < x)))"

text \<open>
  "Apply the temperature limit":
  \<^verbatim>\<open>if max_temperature_config is not None and "temperature" in openai_req\<close>, and the
  request's value is greater than the cap, the value is overwritten in place.
\<close>

definition apply_temperature_limit :: "json option \<Rightarrow> pydict \<Rightarrow> py_exception + pydict" where
  "apply_temperature_limit max_temperature_config openai_req =
     (case max_temperature_config of
        None \<Rightarrow> Inr openai_req
      | Some JNull \<Rightarrow> Inr openai_req
      | Some cap \<Rightarrow>
          (case map_of openai_req ''temperature'' of
             None \<Rightarrow> Inr openai_req
           | Some original_temp \<Rightarrow>
               (case py_greater original_temp cap of
                  Inl e \<Rightarrow> Inl e
                | Inr exceeds \<Rightarrow>
                    if exceeds then Inr (AList.update ''temperature'' cap openai_req)
                    else Inr openai_req)))"

text \<open>
  The value that \<^verbatim>\<open>convert_openai_to_lmarena_payload\<close>
  (\<^verbatim>\<open>services/message_converter.py\<close>) returns. Of the request it reads
  \<^verbatim>\<open>openai_data.get("messages")\<close> and \<^verbatim>\<open>openai_data.get("model")\<close> and no other key:
  \<open>build_templates\<close> stands for steps 0 to 6 of the translator, which turn the
  messages into the list of message templates under the configuration and the mode, and
  \<open>target_model_of\<close> for the look-up of the model's id. The final battle target is
  computed as the code does.
\<close>

definition ascii_lower :: "char \<Rightarrow> char" where
  "ascii_lower c =
     (if 65 \<le> (of_char c :: nat) \<and> (of_char c :: nat) \<le> 90
      then char_of ((of_char c :: nat) + 32) else c)"

definition final_battle_target :: "(string \<rightharpoonup> json) \<Rightarrow> string option \<Rightarrow> string option \<Rightarrow> string" where
  "final_battle_target cfg mode_ov battle_target_ov =
     (let final_mode =
            (case mode_ov of
               Some m \<Rightarrow> m
             | None \<Rightarrow> (case cfg ''id_updater_last_mode'' of Some (JStr m) \<Rightarrow> m
                        | _ \<Rightarrow> ''direct_chat''))
      in if final_mode = ''direct_chat'' then ''a''
         else map ascii_lower
                (case battle_target_ov of
                   Some t \<Rightarrow> t
                 | None \<Rightarrow> (case cfg ''id_updater_battle_target'' of Some (JStr t) \<Rightarrow> t
                            | _ \<Rightarrow> ''A'')))"

definition convert_openai_to_lmarena_payload ::
  "(json option \<Rightarrow> json) \<Rightarrow> (json option \<Rightarrow> json) \<Rightarrow> (string \<rightharpoonup> json) \<Rightarrow> pydict \<Rightarrow> string
     \<Rightarrow> string option \<Rightarrow> string option \<Rightarrow> pydict" where
  "convert_openai_to_lmarena_payload build_templates target_model_of cfg openai_data sid
       mode_ov battle_target_ov =
     [(''message_templates'', build_templates (map_of openai_data ''messages'')),
      (''target_model_id'', target_model_of (map_of openai_data ''model'')),
      (''session_id'', JStr sid),
      (''battle_target'', JStr (final_battle_target cfg mode_ov battle_target_ov))]"

text \<open>\<^verbatim>\<open>retry_config\<close>, read from \<^verbatim>\<open>CONFIG["empty_response_retry"]\<close> with its defaults.\<close>

definition retry_config :: "(string \<rightharpoonup> json) \<Rightarrow> json" where
  "retry_config cfg =
     (let r = get_default cfg ''empty_response_retry'' (JObj [])
      in JObj [(''enabled'', json_get_default r ''enabled'' (JBool True)),
               (''max_retries'', json_get_default r ''max_retries'' (JNum 5)),
               (''base_delay_ms'', json_get_default r ''base_delay_ms'' (JNum 1000)),
               (''max_delay_ms'', json_get_default r ''max_delay_ms'' (JNum 30000)),
               (''show_retry_info'',
                  json_get_default r ''show_retry_info_to_client'' (JBool False))])"

text \<open>
  What \<^verbatim>\<open>handle_lmarena_request\<close> has produced when it sends: the copy of the request
  kept in \<^verbatim>\<open>request_metadata\<close>, the \<^verbatim>\<open>temperature\<close> reported to
  \<^verbatim>\<open>monitoring_service.request_start\<close>, and \<^verbatim>\<open>message_to_browser\<close>.
\<close>

record dispatch =
  stored_request :: pydict
  monitoring_temperature :: "json option"
  message_to_browser :: json

datatype failure =
    HTTP_400_no_session_for_model
  | HTTP_400_invalid_session
  | Python_error py_exception

text \<open>
  The function up to the send. \<open>selected_mapping\<close> is the binding chosen for the model
  (\<open>None\<close> when the model has none), \<open>rid\<close> the request id minted by
  \<^verbatim>\<open>uuid.uuid4()\<close>. The image pre-processing between the two steps rewrites image URLs
  inside the messages and nothing else; it is part of what \<open>build_templates\<close> sees.
\<close>

definition handle_lmarena_request ::
  "(json option \<Rightarrow> json) \<Rightarrow> (json option \<Rightarrow> json) \<Rightarrow> (string \<rightharpoonup> json) \<Rightarrow> string
     \<Rightarrow> json option \<Rightarrow> string \<Rightarrow> pydict \<Rightarrow> failure + dispatch" where
  "handle_lmarena_request build_templates target_model_of cfg model_type selected_mapping rid
       openai_req =
     (let mapped = (case selected_mapping of None \<Rightarrow> JObj [] | Some m \<Rightarrow> m);
          mapped_session = as_string (json_get mapped ''session_id'');
          max_temperature_config = json_get mapped ''max_temperature''
      in if mapped_session = None \<and> \<not> config_flag cfg ''use_default_ids_if_mapping_not_found'' True
         then Inl HTTP_400_no_session_for_model
         else
           let sid = (case mapped_session of
                        Some s \<Rightarrow> Some s
                      | None \<Rightarrow> as_string (cfg ''session_id''));
               mode_ov = (case mapped_session of
                            Some s \<Rightarrow> as_string (json_get mapped ''mode'')
                          | None \<Rightarrow> None);
               battle_target_ov = (case mapped_session of
                                     Some s \<Rightarrow> as_string (json_get mapped ''battle_target'')
                                   | None \<Rightarrow> None)
           in case apply_temperature_limit max_temperature_config openai_req of
                Inl e \<Rightarrow> Inl (Python_error e)
              | Inr req \<Rightarrow>
                  (case sid of
                     None \<Rightarrow> Inl HTTP_400_invalid_session
                   | Some s \<Rightarrow>
                       if str_contains ''YOUR_'' s then Inl HTTP_400_invalid_session
                       else
                         let payload = convert_openai_to_lmarena_payload build_templates
                                         target_model_of cfg req s mode_ov battle_target_ov;
                             payload' = (if model_type = ''image''
                                         then payload @ [(''is_image_request'', JBool True)]
                                         else payload)
                         in Inr \<lparr>stored_request = req,
                                 monitoring_temperature = map_of req ''temperature'',
                                 message_to_browser =
                                   JObj [(''request_id'', JStr rid),
                                         (''payload'', JObj payload'),
                                         (''retry_config'', retry_config cfg)]\<rparr>))"

text \<open>Every key that occurs in a JSON value, at any depth.\<close>

primrec all_keys :: "json \<Rightarrow> string list" where
  "all_keys JNull = []"
| "all_keys (JBool b) = []"
| "all_keys (JNum x) = []"
| "all_keys (JStr s) = []"
| "all_keys (JArr xs) = concat (map all_keys xs)"
| "all_keys (JObj kvs) = concat (map (\<lambda>p. fst p # snd p) (map (map_prod id all_keys) kvs))"

text \<open>
  Scenario S1 of the specification: model \<^verbatim>\<open>m1\<close> bound to a text session with
  \<^verbatim>\<open>max_temperature\<close> 0.7, and the request
  \<^verbatim>\<open>{model: m1, messages: [{role: user, content: hi}], temperature: 1.5, stream: true}\<close>.
  For this one message the translator builds one template; \<^verbatim>\<open>m1\<close> has no entry in
  \<^verbatim>\<open>models.json\<close>, so the target model id is \<^verbatim>\<open>None\<close>.
\<close>

definition s1_binding :: json where
  "s1_binding = JObj [(''session_id'', JStr ''s-1''), (''type'', JStr ''text''),
                      (''max_temperature'', JNum 0.7)]"

definition s1_request :: pydict where
  "s1_request =
     [(''model'', JStr ''m1''),
      (''messages'', JArr [JObj [(''role'', JStr ''user''), (''content'', JStr ''hi'')]]),
      (''temperature'', JNum 1.5),
      (''stream'', JBool True)]"

definition s1_templates :: "json option \<Rightarrow> json" where
  "s1_templates messages =
     JArr [JObj [(''role'', JStr ''user''), (''content'', JStr ''hi''),
                 (''attachments'', JArr []), (''participantPosition'', JStr ''a'')]]"

definition s1_dispatch :: "failure + dispatch" where
  "s1_dispatch =
     handle_lmarena_request s1_templates (\<lambda>_. JNull) Map.empty ''text'' (Some s1_binding)
       ''req-1'' s1_request"

text \<open>What the code produces for the scenario.\<close>

definition s1_dispatched :: dispatch where
  "s1_dispatched =
     \<lparr>stored_request =
        [(''model'', JStr ''m1''),
         (''messages'', JArr [JObj [(''role'', JStr ''user''), (''content'', JStr ''hi'')]]),
         (''temperature'', JNum 0.7),
         (''stream'', JBool True)],
      monitoring_temperature = Some (JNum 0.7),
      message_to_browser =
        JObj [(''request_id'', JStr ''req-1''),
              (''payload'',
                 JObj [(''message_templates'',
                          JArr [JObj [(''role'', JStr ''user''), (''content'', JStr ''hi''),
                                      (''attachments'', JArr []),
                                      (''participantPosition'', JStr ''a'')]]),
                       (''target_model_id'', JNull),
                       (''session_id'', JStr ''s-1''),
                       (''battle_target'', JStr ''a'')]),
              (''retry_config'',
                 JObj [(''enabled'', JBool True), (''max_retries'', JNum 5),
                       (''base_delay_ms'', JNum 1000), (''max_delay_ms'', JNum 30000),
                       (''show_retry_info'', JBool False)])]\<rparr>"

section \<open>Image pipeline: the processed-image cache\<close>

text \<open>
  \<^verbatim>\<open>services/image_service.py\<close>, \<^verbatim>\<open>process_image_data\<close>. The functions it calls and
  does not define (SHA-256, the decoder and the optimiser of
  \<^verbatim>\<open>modules/image_processor.py\<close>, the uploader, \<^verbatim>\<open>random.sample\<close>) are its
  environment; each reports failure in its result, as the Python functions do in their
  error component. Image bytes and formats are strings.
\<close>

record endpoint =
  name :: string
  enabled :: bool

record image_env =
  sha256 :: "string \<Rightarrow> string"
  decode_base64_image :: "string \<Rightarrow> string + (string \<times> string)"
  optimize_image :: "string \<Rightarrow> string \<Rightarrow> string + (string \<times> string)"
  image_to_base64 :: "string \<Rightarrow> string \<Rightarrow> string"
  upload_to_file_bed :: "endpoint \<Rightarrow> string \<Rightarrow> string + string"
  random_sample :: "endpoint list \<Rightarrow> endpoint list"

text \<open>
  The settings that the function reads from \<^verbatim>\<open>CONFIG\<close> and \<^verbatim>\<open>model_image_config\<close>,
  each with the default of its \<^verbatim>\<open>.get\<close>: \<^verbatim>\<open>processed_image_cache.enabled\<close> (true),
  \<^verbatim>\<open>ttl_seconds\<close> (3600), \<^verbatim>\<open>max_size\<close> (200); \<open>optimization_enabled\<close> is the merged
  flag of the global and the per-model configuration.
\<close>

record image_config =
  file_bed_enabled :: bool
  cache_enabled :: bool
  ttl_seconds :: real
  max_size :: nat
  optimization_enabled :: bool
  file_bed_endpoints :: "endpoint list"
  file_bed_selection_strategy :: string
  FILEBED_RECOVERY_TIME :: real

text \<open>What the function does to the outside, in order.\<close>

datatype image_effect =
    Decode
  | Optimize
  | Upload string

text \<open>
  The mutable arguments, each \<open>None\<close> when the caller passes \<^verbatim>\<open>None\<close>: the cache (a
  dictionary from hash to value and time, in insertion order), the disabled endpoints,
  the one-element list holding the round-robin index; and the effects so far.
\<close>

record image_state =
  PROCESSED_IMAGE_CACHE :: "(string \<times> string \<times> real) list option"
  DISABLED_ENDPOINTS :: "(string \<rightharpoonup> real) option"
  ROUND_ROBIN_INDEX_REF :: "nat option"
  effects :: "image_effect list"

text \<open>\<^verbatim>\<open>calculate_image_hash\<close>: the hash of what follows the first comma, if there is one.\<close>

definition calculate_image_hash :: "(string \<Rightarrow> string) \<Rightarrow> string \<Rightarrow> string" where
  "calculate_image_hash h base64_data =
     (if str_contains '','' base64_data then h (snd (split_once '','' base64_data))
      else h base64_data)"

text \<open>
  \<^verbatim>\<open>PROCESSED_IMAGE_CACHE[image_hash] = (value, time.time())\<close>, under the guard
  \<^verbatim>\<open>cache_enabled and image_hash and PROCESSED_IMAGE_CACHE is not None\<close>; with
  \<open>evict\<close> the oldest entry is removed when the cache has grown beyond \<open>max_size\<close>.
\<close>

definition store_in_cache ::
  "image_config \<Rightarrow> bool \<Rightarrow> string option \<Rightarrow> string \<Rightarrow> real \<Rightarrow> image_state \<Rightarrow> image_state" where
  "store_in_cache cfg evict image_hash v now st =
     (case PROCESSED_IMAGE_CACHE st of
        None \<Rightarrow> st
      | Some cache \<Rightarrow>
          (case image_hash of
             None \<Rightarrow> st
           | Some h \<Rightarrow>
               if cache_enabled cfg \<and> h \<noteq> [] then
                 let cache' = AList.update h (v, now) cache
                 in st\<lparr>PROCESSED_IMAGE_CACHE :=
                         Some (if evict \<and> max_size cfg < length cache'
                               then AList.delete (fst (hd cache')) cache' else cache')\<rparr>
               else st))"

text \<open>
  The upload loop \<^verbatim>\<open>for i, endpoint in enumerate(endpoints_to_try)\<close>: the URL of the
  first upload that succeeds, or \<open>None\<close>.
\<close>

fun upload_loop ::
  "image_env \<Rightarrow> image_config \<Rightarrow> real \<Rightarrow> string \<Rightarrow> nat \<Rightarrow> endpoint list \<Rightarrow> image_state
     \<Rightarrow> string option \<times> image_state" where
  "upload_loop env cfg now upload_base64 i [] st = (None, st)"
| "upload_loop env cfg now upload_base64 i (ep # rest) st =
     (if (case DISABLED_ENDPOINTS st of None \<Rightarrow> False | Some d \<Rightarrow> name ep \<in> dom d)
      then upload_loop env cfg now upload_base64 (Suc i) rest st
      else
        let st1 = st\<lparr>effects := effects st @ [Upload (name ep)]\<rparr>
        in case upload_to_file_bed env ep upload_base64 of
             Inr uploaded_url \<Rightarrow> (Some uploaded_url, st1)
           | Inl upload_error \<Rightarrow>
               let st2 = st1\<lparr>DISABLED_ENDPOINTS :=
                              map_option (\<lambda>d. d(name ep \<mapsto> now)) (DISABLED_ENDPOINTS st1)\<rparr>;
                   st3 = (if file_bed_selection_strategy cfg = ''failover'' \<and> i = 0
                          then st2\<lparr>ROUND_ROBIN_INDEX_REF :=
                                     map_option Suc (ROUND_ROBIN_INDEX_REF st2)\<rparr>
                          else st2)
               in upload_loop env cfg now upload_base64 (Suc i) rest st3)"

text \<open>
  The order in which the endpoints are tried, and the index after a round-robin
  selection.
\<close>

definition endpoints_to_try ::
  "image_env \<Rightarrow> image_config \<Rightarrow> endpoint list \<Rightarrow> image_state \<Rightarrow> endpoint list \<times> image_state" where
  "endpoints_to_try env cfg active st =
     (case ROUND_ROBIN_INDEX_REF st of
        None \<Rightarrow> (random_sample env active, st)
      | Some rr \<Rightarrow>
          if file_bed_selection_strategy cfg = ''failover''
          then (rotate (rr mod length active) active, st)
          else if file_bed_selection_strategy cfg = ''round_robin''
          then (rotate (rr mod length active) active,
                st\<lparr>ROUND_ROBIN_INDEX_REF := Some (Suc rr)\<rparr>)
          else (random_sample env active, st))"

text \<open>
  Everything after the cache check: decode, optimise if enabled, then upload with
  fail-over or return a data URI, and store the result under the hash.
\<close>

definition process_uncached ::
  "image_env \<Rightarrow> image_config \<Rightarrow> real \<Rightarrow> string \<Rightarrow> string option \<Rightarrow> image_state
     \<Rightarrow> (string \<times> string option) \<times> image_state" where
  "process_uncached env cfg now base64_data image_hash st =
     (let st1 = st\<lparr>effects := effects st @ [Decode]\<rparr>
      in case decode_base64_image env base64_data of
           Inl decode_error \<Rightarrow> ((base64_data, Some decode_error), st1)
         | Inr (image_bytes, image_format) \<Rightarrow>
             let optimized =
                   (if optimization_enabled cfg
                    then (case optimize_image env image_bytes image_format of
                            Inl opt_error \<Rightarrow> (image_bytes, image_format)
                          | Inr r \<Rightarrow> r)
                    else (image_bytes, image_format));
                 st2 = (if optimization_enabled cfg
                        then st1\<lparr>effects := effects st1 @ [Optimize]\<rparr> else st1);
                 base64_result = image_to_base64 env (fst optimized) (snd optimized)
             in if file_bed_enabled cfg then
                  let recovered =
                        map_option
                          (\<lambda>d k. case d k of
                                    None \<Rightarrow> None
                                  | Some disable_time \<Rightarrow>
                                      if FILEBED_RECOVERY_TIME cfg < now - disable_time
                                      then None else Some disable_time)
                          (DISABLED_ENDPOINTS st2);
                      st3 = st2\<lparr>DISABLED_ENDPOINTS := recovered\<rparr>;
                      active_endpoints =
                        filter (\<lambda>ep. enabled ep \<and>
                                   (case recovered of None \<Rightarrow> True
                                    | Some d \<Rightarrow> name ep \<notin> dom d))
                               (file_bed_endpoints cfg)
                  in if active_endpoints = [] then ((base64_result, None), st3)
                     else
                       let (order, st4) = endpoints_to_try env cfg active_endpoints st3;
                           (final_url, st5) = upload_loop env cfg now base64_result 0 order st4
                       in case final_url of
                            Some url \<Rightarrow>
                              ((url, None), store_in_cache cfg True image_hash url now st5)
                          | None \<Rightarrow>
                              ((base64_result, None),
                               store_in_cache cfg False image_hash base64_result now st5)
                else ((base64_result, None),
                      store_in_cache cfg True image_hash base64_result now st2))"

text \<open>
  \<^verbatim>\<open>process_image_data\<close>: the cache is consulted only under
  \<^verbatim>\<open>cache_enabled and PROCESSED_IMAGE_CACHE is not None\<close>; a hit younger than the TTL
  is returned at once, an expired entry is deleted. \<open>now\<close> is \<^verbatim>\<open>time.time()\<close>.
\<close>

definition process_image_data ::
  "image_env \<Rightarrow> image_config \<Rightarrow> real \<Rightarrow> string \<Rightarrow> image_state
     \<Rightarrow> (string \<times> string option) \<times> image_state" where
  "process_image_data env cfg now base64_data st =
     (case (if cache_enabled cfg then PROCESSED_IMAGE_CACHE st else None) of
        None \<Rightarrow> process_uncached env cfg now base64_data None st
      | Some cache \<Rightarrow>
          let image_hash = calculate_image_hash (sha256 env) base64_data
          in case map_of cache image_hash of
               None \<Rightarrow> process_uncached env cfg now base64_data (Some image_hash) st
             | Some (cached_data, cache_time) \<Rightarrow>
                 if now - cache_time < ttl_seconds cfg then ((cached_data, None), st)
                 else process_uncached env cfg now base64_data (Some image_hash)
                        (st\<lparr>PROCESSED_IMAGE_CACHE := Some (AList.delete image_hash cache)\<rparr>))"

text \<open>
  An environment and two configurations for the examples. The hash stands in for
  SHA-256; decoding succeeds and the data URI is rebuilt from bytes and format.
\<close>

definition example_env :: image_env where
  "example_env =
     \<lparr>sha256 = (\<lambda>s. ''h:'' @ s),
      decode_base64_image = (\<lambda>s. Inr (snd (split_once '','' s), ''png'')),
      optimize_image = (\<lambda>b f. Inr (b, f)),
      image_to_base64 = (\<lambda>b f. ''data:image/'' @ f @ '';base64,'' @ b),
      upload_to_file_bed = (\<lambda>ep d. Inr (''https://files.example/'' @ name ep)),
      random_sample = (\<lambda>eps. eps)\<rparr>"

definition cache_on :: image_config where
  "cache_on =
     \<lparr>file_bed_enabled = False, cache_enabled = True, ttl_seconds = 3600, max_size = 200,
      optimization_enabled = False, file_bed_endpoints = [],
      file_bed_selection_strategy = ''random'', FILEBED_RECOVERY_TIME = 300\<rparr>"

definition cache_off :: image_config where
  "cache_off = cache_on\<lparr>cache_enabled := False\<rparr>"

text \<open>
  The image \<^verbatim>\<open>data:image/png;base64,AAAA\<close> was processed at time 1000, when a file
  host was in use, and its URL is in the cache.
\<close>

definition warm_state :: image_state where
  "warm_state =
     \<lparr>PROCESSED_IMAGE_CACHE = Some [(''h:AAAA'', (''https://files.example/one'', 1000))],
      DISABLED_ENDPOINTS = None,
      ROUND_ROBIN_INDEX_REF = None,
      effects = []\<rparr>"

section \<open>A failed reload empties the store\<close>




text \<open>A file that has vanished when its modification time is read empties the store too.\<close>

lemma missing_file_clears_store:
  "load_config force_reload None outcome st = st\<lparr>CONFIG := Map.empty\<rparr>"
  "load_model_endpoint_map force_reload None outcome st = st\<lparr>MODEL_ENDPOINT_MAP := Map.empty\<rparr>"
  by (simp_all add: load_config_def load_model_endpoint_map_def)

text \<open>A poll that finds the modification time unchanged reads nothing and changes nothing.\<close>

lemma unchanged_file_is_skipped:
  "load_config False (Some (CONFIG_FILE_MTIMES st ''config.jsonc'')) outcome st = st"
  by (simp add: load_config_def)

section \<open>The cool-down does not reach the admission gate\<close>

text \<open>
  The gate itself does what the claim says of it: called with a cool-down deadline that
  lies in the future it rejects with status 503 and a remaining time that is not
  negative.
\<close>

lemma cooldown_gate_rejects:
  assumes "now < until"
  shows "\<exists>r\<ge>0. cooldown_gate (Some until) now = HTTP_503_cooling_down r"
  using assms by (simp add: cooldown_gate_def Let_def)

text \<open>
  The detection starts a cool-down of 25 seconds, in the local variables of the stream
  that detected the challenge.
\<close>

lemma first_detection_sets_local_cooldown:
  assumes "\<not> IS_REFRESHING_FOR_VERIFICATION loc"
  shows "handle_cloudflare_verification t c loc
           = (Refresh_sent_cooling_25s, c,
              loc\<lparr>IS_REFRESHING_FOR_VERIFICATION := True,
                  VERIFICATION_COOLDOWN_UNTIL := Some (t + 25)\<rparr>)"
  using assms by (simp add: handle_cloudflare_verification_def)

text \<open>
  Claim C2 fails on the code. Request A arrives at time 100 and its stream meets a
  challenge page at time 101: the first detection, which starts the cool-down until 126.
  Request B arrives at time 105, within the cool-down, and is admitted: the deadline was
  written to A's local variables only.
\<close>

theorem cooldown_not_process_wide:
  "serve_tab_requests idle_verification [(100, Some 101), (105, None)]
     = [Streamed (Some Refresh_sent_cooling_25s), Streamed None]"
  by (simp add: serve_tab_request_def cooldown_gate_def handle_cloudflare_verification_def
        idle_verification_def)

section \<open>Reassignment after a disconnect\<close>

text \<open>
  The call that \<^verbatim>\<open>reassign_pending_requests\<close> makes binds \<^verbatim>\<open>message_id\<close> to the third
  parameter, \<^verbatim>\<open>mode_override\<close>, and then names \<^verbatim>\<open>mode_override\<close> again as a keyword:
  Python raises \<^verbatim>\<open>TypeError\<close> (multiple values for the argument) before the translator
  runs, whatever the arguments are.
\<close>

lemma reassign_call_raises:
  "call_convert body [a, b, c] [(''mode_override'', x), (''battle_target_override'', y)]
     = Inl TypeError"
  by (simp add: call_convert_def bind_arguments_def convert_params_def)

lemma put_keeps_sent [simp]:
  "ws_sent (put rid x st) = ws_sent st"
  "tab_request_counts (put rid x st) = tab_request_counts st"
  "response_channels (put rid x st) = response_channels st"
  "browser_connections (put rid x st) = browser_connections st"
  "browser_connections_lock (put rid x st) = browser_connections_lock st"
  by (simp_all add: put_def)

lemma reassignment_failed_keeps_sent [simp]:
  "ws_sent (reassignment_failed rid e st) = ws_sent st"
  "tab_request_counts (reassignment_failed rid e st) = tab_request_counts st"
  by (simp_all add: reassignment_failed_def)

lemma reassign_request_sends_nothing:
  "ws_sent (reassign_request body tabs st entry) = ws_sent st
   \<and> tab_request_counts (reassign_request body tabs st entry) = tab_request_counts st"
  by (simp add: reassign_request_def Let_def reassign_call_raises
           split: option.splits)

lemma reassign_loop_sends_nothing:
  "ws_sent (foldl (reassign_request body tabs) st found) = ws_sent st
   \<and> tab_request_counts (foldl (reassign_request body tabs) st found) = tab_request_counts st"
  by (induction found arbitrary: st) (simp_all add: reassign_request_sends_nothing)

lemma requests_to_reassign_sends_nothing:
  "ws_sent (snd (requests_to_reassign t m metas st)) = ws_sent st
   \<and> tab_request_counts (snd (requests_to_reassign t m metas st)) = tab_request_counts st"
  by (induction t m metas st rule: requests_to_reassign.induct)
     (auto simp: case_prod_unfold Let_def)

text \<open>
  Whatever the registry, a run of \<^verbatim>\<open>reassign_pending_requests\<close> sends no envelope and
  increments no counter.
\<close>

lemma reassign_never_sends:
  assumes "reassign_pending_requests self body cfg t st = Returned st'"
  shows "ws_sent st' = ws_sent st \<and> tab_request_counts st' = tab_request_counts st"
proof -
  from assms obtain st1 where a: "acquire self st = Returned st1"
    by (auto simp: reassign_pending_requests_def split: outcome.splits)
  then have st1: "st1 = st\<lparr>browser_connections_lock := Some self\<rparr>"
    by (auto simp: acquire_def split: option.splits)
  let ?r = "requests_to_reassign t (config_number cfg ''max_request_transfers'' 3)
              (request_metadata st1) st1"
  have r: "ws_sent (snd ?r) = ws_sent st1 \<and> tab_request_counts (snd ?r) = tab_request_counts st1"
    by (rule requests_to_reassign_sends_nothing)
  have l: "ws_sent (foldl (reassign_request body (map fst (browser_connections st1))) (snd ?r) (fst ?r))
             = ws_sent (snd ?r)
         \<and> tab_request_counts (foldl (reassign_request body (map fst (browser_connections st1))) (snd ?r) (fst ?r))
             = tab_request_counts (snd ?r)"
    by (rule reassign_loop_sends_nothing)
  from assms a r l show ?thesis
    by (auto simp: reassign_pending_requests_def Let_def case_prod_unfold release_def st1
             split: if_splits)
qed

text \<open>
  Claim C3 fails on the code. T1 has disconnected, T2 is connected with one request in
  flight, and request R1 of T1 has not been transferred before (limit 3). Run with the
  lock free, \<^verbatim>\<open>reassign_pending_requests\<close> records R1 as moved to T2 with
  \<^verbatim>\<open>transfer_count\<close> 1, then fails in the call of the translator: nothing is sent to
  T2, the counter of T2 stays at 1, and the channel of R1 receives an error object
  followed by \<^verbatim>\<open>"[DONE]"\<close>.
\<close>

theorem reassignment_sends_no_envelope:
  "\<exists>s. reassign_pending_requests self convert_body Map.empty ''T1'' after_T1_left = Returned s
       \<and> ws_sent s = []
       \<and> tab_request_counts s ''T2'' = Some 1
       \<and> queue s ''R1'' = [Error_frame (Reassignment_failed TypeError), DONE]
       \<and> map_option tab_id (map_of (request_metadata s) ''R1'') = Some (Some ''T2'')
       \<and> map_option transfer_count (map_of (request_metadata s) ''R1'') = Some 1"
  by (simp add: reassign_pending_requests_def acquire_def release_def config_number_def
        after_T1_left_def two_tabs_def pending_on_def least_loaded_tab_def get_default_def
        reassign_request_def reassign_call_raises reassignment_failed_def put_def Let_def)

section \<open>The registry lock during the clean-up\<close>

text \<open>
  Claim C4 fails on the code. Whenever a tab disconnects while the lock is free and
  another tab stays connected, the clean-up takes \<^verbatim>\<open>browser_connections_lock\<close> and,
  still holding it, awaits \<^verbatim>\<open>reassign_pending_requests\<close>, whose first step is to
  acquire the same lock: the task is left waiting for a lock that it holds itself.
\<close>

theorem disconnect_awaits_its_own_lock:
  assumes "browser_connections_lock st = None"
    and "AList.delete t (browser_connections st) \<noteq> []"
  shows "\<exists>s. tab_disconnects self convert_body cfg t st = Awaits_lock s
            \<and> browser_connections_lock s = Some self"
  using assms
  by (simp add: tab_disconnects_def websocket_disconnect_def acquire_def
        reassign_pending_requests_def Let_def)

theorem disconnect_awaits_its_own_lock_witness:
  "browser_connections_lock two_tabs = None
   \<and> AList.delete ''T1'' (browser_connections two_tabs) \<noteq> []
   \<and> (\<exists>s. tab_disconnects 7 (\<lambda>_. JNull) Map.empty ''T1'' two_tabs = Awaits_lock s
           \<and> browser_connections_lock s = Some 7)"
proof -
  have h1: "browser_connections_lock two_tabs = None" by (simp add: two_tabs_def)
  have h2: "AList.delete ''T1'' (browser_connections two_tabs) \<noteq> []"
    by (simp add: two_tabs_def)
  from disconnect_awaits_its_own_lock[OF h1 h2] h1 h2 show ?thesis by blast
qed

section \<open>Closing the channels when auto-retry is off\<close>

text \<open>
  When the last tab disconnects no reassignment is attempted, the clean-up runs to its
  end, and with auto-retry off every open channel receives the error frame and the
  dictionary of channels is emptied.
\<close>

lemma close_all_channels_queue:
  "queue (foldl (\<lambda>s rid. put rid (Error_frame e) s) st rids) r
     = queue st r @ replicate (count_list rids r) (Error_frame e)"
  by (induction rids arbitrary: st) (simp_all add: put_def replicate_app_Cons_same)

lemma distinct_count_one:
  "distinct xs \<Longrightarrow> x \<in> set xs \<Longrightarrow> count_list xs x = 1"
  by (induction xs) auto

lemma last_tab_disconnect_closes_channels:
  assumes "browser_connections_lock st = None"
    and "AList.delete t (browser_connections st) = []"
    and "\<not> config_flag cfg ''enable_auto_retry'' False"
    and "distinct (response_channels st)" and "r \<in> set (response_channels st)"
  shows "\<exists>s. websocket_disconnect self f cfg t st = Returned s
            \<and> response_channels s = []
            \<and> queue s r = queue st r @ [Error_frame Browser_disconnected_during_operation]"
  using assms
  by (simp add: websocket_disconnect_def acquire_def release_def close_all_channels_def
        close_all_channels_queue distinct_count_one Let_def)

text \<open>
  Claim C10 fails on the code. Auto-retry is off (the default), T1 and T2 are connected,
  R2 is in flight on T2, and T1 disconnects. The clean-up never reaches the loop that
  closes the channels: it is suspended on the lock, and both channels stay open with
  nothing put into them.
\<close>

theorem disconnect_leaves_channels_open:
  "\<exists>s. tab_disconnects self convert_body Map.empty ''T1'' two_tabs = Awaits_lock s
       \<and> response_channels s = [''R1'', ''R2'']
       \<and> queue s ''R1'' = [] \<and> queue s ''R2'' = []"
  by (simp add: tab_disconnects_def websocket_disconnect_def acquire_def
        reassign_pending_requests_def two_tabs_def Let_def)

section \<open>Routing of inbound frames\<close>




text \<open>
  The branch for the first message of a client without \<^verbatim>\<open>tab_id\<close> consults no
  metadata: the frame that the receive loop rejects above is accepted there.
\<close>

lemma first_legacy_frame_is_not_checked:
  "fst (route_first_legacy_frame (Some ''R2'') (Some (JStr ''a0:hi'')) strict_R2) = Enqueued"
  by (simp add: route_first_legacy_frame_def strict_R2_def two_tabs_def)

section \<open>Which binding a request uses\<close>

text \<open>
  One request for a model with a non-empty list of session bindings and a cursor \<open>c\<close>
  within the list: the cursor is advanced once, to \<open>(c + 1) mod N\<close>, and the binding
  used is the one at the advanced cursor, not the one at \<open>c\<close>.
\<close>

lemma admit_request_uses_next_binding:
  assumes "model_name \<noteq> []" and "endpoint_map model_name = Some (JArr bs)"
    and "get_default idx model_name 0 = c" and "c < length bs"
    and "\<not> is_direct_api_mode (Some (bs ! c))"
  shows "admit_request endpoint_map model_name idx
           = Inr (Browser_tab (Some (bs ! ((c + 1) mod length bs))),
                  idx(model_name \<mapsto> (c + 1) mod length bs))"
proof -
  from assms(4) obtain e es where bs: "bs = e # es" by (cases bs) auto
  have "0 < length bs" by (simp add: bs)
  then have lt: "(c + 1) mod length bs < length bs" by (rule mod_less_divisor)
  show ?thesis
    using assms lt
    by (simp add: admit_request_def chat_completions_select_def handle_lmarena_select_def
          get_default_def bs Let_def)
qed

lemma m2_first_request:
  "admit_request m2_map ''m2'' Map.empty
     = Inr (Browser_tab (Some (session_binding ''B2'')), [''m2'' \<mapsto> Suc 0])"
  by (simp add: admit_request_def chat_completions_select_def handle_lmarena_select_def
        is_direct_api_mode_def get_default_def m2_map_def session_binding_def Let_def)

lemma m2_request_at_1:
  "admit_request m2_map ''m2'' [''m2'' \<mapsto> Suc 0]
     = Inr (Browser_tab (Some (session_binding ''B3'')), [''m2'' \<mapsto> Suc (Suc 0)])"
  by (simp add: admit_request_def chat_completions_select_def handle_lmarena_select_def
        is_direct_api_mode_def get_default_def m2_map_def session_binding_def Let_def)

lemma m2_request_at_2:
  "admit_request m2_map ''m2'' [''m2'' \<mapsto> Suc (Suc 0)]
     = Inr (Browser_tab (Some (session_binding ''B1'')), [''m2'' \<mapsto> 0])"
  by (simp add: admit_request_def chat_completions_select_def handle_lmarena_select_def
        is_direct_api_mode_def get_default_def m2_map_def session_binding_def Let_def)

lemma m2_request_at_0:
  "admit_request m2_map ''m2'' [''m2'' \<mapsto> 0]
     = Inr (Browser_tab (Some (session_binding ''B2'')), [''m2'' \<mapsto> Suc 0])"
  by (simp add: admit_request_def chat_completions_select_def handle_lmarena_select_def
        is_direct_api_mode_def get_default_def m2_map_def session_binding_def Let_def)

text \<open>
  Claim C5 fails on the code. Six sequential requests for \<^verbatim>\<open>m2\<close>, mapped to
  \<open>[B1, B2, B3]\<close>, starting without a cursor, use B2, B3, B1, B2, B3, B1: the cursor is
  advanced once per request, in \<^verbatim>\<open>chat_completions\<close>, and
  \<^verbatim>\<open>handle_lmarena_request\<close> then reads the advanced cursor.
\<close>

theorem round_robin_starts_at_second_binding:
  "admit_requests m2_map ''m2'' Map.empty 6
     = Inr [Browser_tab (Some (session_binding ''B2'')),
            Browser_tab (Some (session_binding ''B3'')),
            Browser_tab (Some (session_binding ''B1'')),
            Browser_tab (Some (session_binding ''B2'')),
            Browser_tab (Some (session_binding ''B3'')),
            Browser_tab (Some (session_binding ''B1''))]"
proof -
  have six: "(6::nat) = Suc (Suc (Suc (Suc (Suc (Suc 0)))))" by simp
  show ?thesis
    unfolding six
    by (simp add: m2_first_request m2_request_at_1 m2_request_at_2 m2_request_at_0)
qed

section \<open>The temperature cap does not reach the envelope\<close>

lemma s1_dispatch_value: "s1_dispatch = Inr s1_dispatched"
  by (simp add: s1_dispatch_def s1_dispatched_def handle_lmarena_request_def s1_binding_def
        s1_request_def s1_templates_def json_get_def as_string_def config_flag_def
        apply_temperature_limit_def py_greater_def as_number_def str_contains_def
        convert_openai_to_lmarena_payload_def final_battle_target_def retry_config_def
        json_get_default_def get_default_def Let_def)

text \<open>
  The claim as written does not hold: in scenario S1 the request is clamped to 0.7, but
  the message sent to the tab has no \<^verbatim>\<open>temperature\<close> key, neither at the top level nor
  in the payload nor anywhere below.
\<close>

theorem envelope_temperature_counterexample:
  "s1_dispatch = Inr s1_dispatched
   \<and> map_of (stored_request s1_dispatched) ''temperature'' = Some (JNum 0.7)
   \<and> json_get (message_to_browser s1_dispatched) ''temperature'' = None
   \<and> ''temperature'' \<notin> set (all_keys (message_to_browser s1_dispatched))"
  by (simp add: s1_dispatch_value) (simp add: s1_dispatched_def json_get_def)

lemma payload_keys:
  "set (map fst (convert_openai_to_lmarena_payload bt tm cfg req s m b))
     = {''message_templates'', ''target_model_id'', ''session_id'', ''battle_target''}"
  by (auto simp: convert_openai_to_lmarena_payload_def)

lemma clamp_exceeding:
  assumes "map_of openai_req ''temperature'' = Some (JNum t)" and "cap < t"
  shows "apply_temperature_limit (Some (JNum cap)) openai_req
           = Inr (AList.update ''temperature'' (JNum cap) openai_req)"
  using assms by (simp add: apply_temperature_limit_def py_greater_def as_number_def)

text \<open>
  Claim C6, amended. If the binding of the model sets \<^verbatim>\<open>max_temperature\<close> and the
  request's \<^verbatim>\<open>temperature\<close> exceeds it, then in every request that is dispatched the
  \<^verbatim>\<open>temperature\<close> of the request is replaced by \<^verbatim>\<open>max_temperature\<close> before
  translation: the copy kept in the request metadata and the value reported to the
  monitoring service are the cap. The message sent to the tab consists of
  \<^verbatim>\<open>request_id\<close>, \<^verbatim>\<open>payload\<close> and \<^verbatim>\<open>retry_config\<close>, and the keys of the payload are
  among \<^verbatim>\<open>message_templates\<close>, \<^verbatim>\<open>target_model_id\<close>, \<^verbatim>\<open>session_id\<close>,
  \<^verbatim>\<open>battle_target\<close> and \<^verbatim>\<open>is_image_request\<close>: it carries no temperature.
\<close>

theorem temperature_clamped_in_request_only:
  assumes "json_get mapping ''max_temperature'' = Some (JNum cap)"
    and "map_of openai_req ''temperature'' = Some (JNum t)"
    and "cap < t"
    and "handle_lmarena_request build_templates target_model_of cfg model_type
           (Some mapping) rid openai_req = Inr d"
  shows "map_of (stored_request d) ''temperature'' = Some (JNum cap)
       \<and> monitoring_temperature d = Some (JNum cap)
       \<and> (\<exists>payload. message_to_browser d
              = JObj [(''request_id'', JStr rid), (''payload'', JObj payload),
                      (''retry_config'', retry_config cfg)]
            \<and> set (map fst payload)
                \<subseteq> {''message_templates'', ''target_model_id'', ''session_id'',
                    ''battle_target'', ''is_image_request''})"
proof -
  let ?req = "AList.update ''temperature'' (JNum cap) openai_req"
  have clamp: "apply_temperature_limit (Some (JNum cap)) openai_req = Inr ?req"
    by (rule clamp_exceeding[OF assms(2,3)])
  have t: "map_of ?req ''temperature'' = Some (JNum cap)"
    by (simp add: update_conv')
  from assms(4) obtain s m b where
    d: "d = \<lparr>stored_request = ?req,
             monitoring_temperature = map_of ?req ''temperature'',
             message_to_browser =
               JObj [(''request_id'', JStr rid),
                     (''payload'',
                        JObj (if model_type = ''image''
                              then convert_openai_to_lmarena_payload build_templates
                                     target_model_of cfg ?req s m b
                                   @ [(''is_image_request'', JBool True)]
                              else convert_openai_to_lmarena_payload build_templates
                                     target_model_of cfg ?req s m b)),
                     (''retry_config'', retry_config cfg)]\<rparr>"
    by (auto simp: handle_lmarena_request_def Let_def assms(1) clamp
             split: if_splits option.splits)
  show ?thesis
    unfolding d using t payload_keys[of build_templates target_model_of cfg ?req s m b]
    by auto
qed

theorem temperature_clamped_in_request_only_witness:
  "json_get s1_binding ''max_temperature'' = Some (JNum 0.7)
   \<and> map_of s1_request ''temperature'' = Some (JNum 1.5)
   \<and> (0.7::real) < 1.5
   \<and> handle_lmarena_request s1_templates (\<lambda>_. JNull) Map.empty ''text'' (Some s1_binding)
        ''req-1'' s1_request = Inr s1_dispatched
   \<and> map_of (stored_request s1_dispatched) ''temperature'' = Some (JNum 0.7)
   \<and> monitoring_temperature s1_dispatched = Some (JNum 0.7)"
proof -
  have h1: "json_get s1_binding ''max_temperature'' = Some (JNum 0.7)"
    by (simp add: json_get_def s1_binding_def)
  have h2: "map_of s1_request ''temperature'' = Some (JNum 1.5)"
    by (simp add: s1_request_def)
  have h3: "(0.7::real) < 1.5" by simp
  have h4: "handle_lmarena_request s1_templates (\<lambda>_. JNull) Map.empty ''text''
              (Some s1_binding) ''req-1'' s1_request = Inr s1_dispatched"
    using s1_dispatch_value by (simp add: s1_dispatch_def)
  from temperature_clamped_in_request_only[OF h1 h2 h3 h4] h1 h2 h3 h4
  show ?thesis by blast
qed

section \<open>The thinking separator splits the stream once\<close>




















section \<open>A cache hit touches nothing\<close>

text \<open>
  The claim as written does not hold for every configuration: with
  \<^verbatim>\<open>processed_image_cache.enabled\<close> set to false the cache is not consulted. The hash
  of the image is in the cache and 100 seconds old (TTL 3600), yet the image is decoded
  again and the result is not the cached value.
\<close>

theorem cache_hit_counterexample:
  "map_of (the (PROCESSED_IMAGE_CACHE warm_state))
       (calculate_image_hash (sha256 example_env) ''data:image/png;base64,AAAA'')
     = Some (''https://files.example/one'', 1000)
   \<and> (1100::real) - 1000 < ttl_seconds cache_off
   \<and> fst (process_image_data example_env cache_off 1100 ''data:image/png;base64,AAAA''
            warm_state)
       = (''data:image/png;base64,AAAA'', None)
   \<and> effects (snd (process_image_data example_env cache_off 1100
                     ''data:image/png;base64,AAAA'' warm_state))
       = [Decode]"
  by (simp add: process_image_data_def process_uncached_def calculate_image_hash_def
        store_in_cache_def example_env_def cache_off_def cache_on_def warm_state_def
        str_contains_def split_once_def Let_def)

text \<open>
  Claim C9, amended. When the processed-image cache is enabled and a cache is passed,
  then for every input image whose content hash is in the cache with an age below the
  TTL, \<^verbatim>\<open>process_image_data\<close> returns the cached value with no error and leaves
  everything else as it was: no decode, no optimisation, no upload attempt, and the
  cache, the disabled endpoints and the round-robin index unchanged.
\<close>

theorem cache_hit_returns_cached:
  assumes "cache_enabled cfg"
    and "PROCESSED_IMAGE_CACHE st = Some cache"
    and "map_of cache (calculate_image_hash (sha256 env) base64_data)
           = Some (cached_data, cache_time)"
    and "now - cache_time < ttl_seconds cfg"
  shows "process_image_data env cfg now base64_data st = ((cached_data, None), st)"
  using assms by (simp add: process_image_data_def)

theorem cache_hit_returns_cached_witness:
  "cache_enabled cache_on
   \<and> PROCESSED_IMAGE_CACHE warm_state
       = Some [(''h:AAAA'', (''https://files.example/one'', 1000))]
   \<and> map_of [(''h:AAAA'', (''https://files.example/one'', 1000::real))]
         (calculate_image_hash (sha256 example_env) ''data:image/png;base64,AAAA'')
       = Some (''https://files.example/one'', 1000)
   \<and> (1100::real) - 1000 < ttl_seconds cache_on
   \<and> process_image_data example_env cache_on 1100 ''data:image/png;base64,AAAA'' warm_state
       = ((''https://files.example/one'', None), warm_state)"
proof -
  have h1: "cache_enabled cache_on" by (simp add: cache_on_def)
  have h2: "PROCESSED_IMAGE_CACHE warm_state
              = Some [(''h:AAAA'', (''https://files.example/one'', 1000))]"
    by (simp add: warm_state_def)
  have h3: "map_of [(''h:AAAA'', (''https://files.example/one'', 1000::real))]
              (calculate_image_hash (sha256 example_env) ''data:image/png;base64,AAAA'')
            = Some (''https://files.example/one'', 1000)"
    by (simp add: calculate_image_hash_def example_env_def str_contains_def split_once_def)
  have h4: "(1100::real) - 1000 < ttl_seconds cache_on" by (simp add: cache_on_def)
  from cache_hit_returns_cached[OF h1 h2 h3 h4] h1 h2 h3 h4 show ?thesis by blast
qed

end
